theory Spec2Isabelle
  imports Main "HOL-Library.Sublist"
begin

section \<open>JavaScript values handled by the gateway\<close>

text \<open>
  A parsed JSON document. The payload of a number plays no role in the gateway (a number
  is never equal to a string under \<open>===\<close>), so it is left as a type parameter.
  A JavaScript value that may be \<open>undefined\<close> is an \<open>option\<close>: \<open>None\<close> is
  \<open>undefined\<close>, \<open>Some JNull\<close> is \<open>null\<close>. A \<open>JObject\<close> lists the own
  properties of the object.
\<close>

datatype 'n json =
    JNull
  | JBool bool
  | JNumber 'n
  | JString string
  | JArray "'n json list"
  | JObject "(string \<times> 'n json) list"

text \<open>
  Optional chaining \<open>v?.k\<close>: \<open>undefined\<close> on \<open>null\<close> and \<open>undefined\<close>, the own
  property on an object, \<open>undefined\<close> on every other value. It is used with the names
  \<open>data\<close>, \<open>entitlements\<close>, \<open>features\<close>, \<open>plans\<close>, \<open>key\<close> and
  \<open>feature_key\<close> only, none of which is inherited from a prototype.
\<close>

fun opt_prop :: "'n json option \<Rightarrow> string \<Rightarrow> 'n json option" where
  "opt_prop (Some (JObject kvs)) k = map_of kvs k"
| "opt_prop _ k = None"

text \<open>Nullish coalescing \<open>a ?? b\<close>.\<close>

fun nullish :: "'n json option \<Rightarrow> 'n json option \<Rightarrow> 'n json option" where
  "nullish None b = b"
| "nullish (Some JNull) b = b"
| "nullish (Some v) b = Some v"

text \<open>\<open>Array.isArray(x) && x.some(p)\<close>.\<close>

fun isArray_and_some :: "'n json option \<Rightarrow> ('n json \<Rightarrow> bool) \<Rightarrow> bool" where
  "isArray_and_some (Some (JArray xs)) p = list_ex p xs"
| "isArray_and_some _ p = False"

text \<open>\<open>v === key\<close> for a string \<open>key\<close>.\<close>

definition strict_eq :: "'n json option \<Rightarrow> string \<Rightarrow> bool" where
  "strict_eq v key = (v = Some (JString key))"

definition hasEntitlement :: "'n json option \<Rightarrow> string \<Rightarrow> bool" where
  "hasEntitlement payload key =
     (let features = nullish (nullish (opt_prop (opt_prop payload ''data'') ''entitlements'')
                                      (opt_prop (opt_prop payload ''data'') ''features''))
                             (Some (JArray []))
      in if isArray_and_some features
              (\<lambda>f. strict_eq (opt_prop (Some f) ''key'') key \<or>
                    strict_eq (opt_prop (Some f) ''feature_key'') key)
         then True
         else let plans = nullish (opt_prop (opt_prop payload ''data'') ''plans'')
                                  (Some (JArray []))
              in if isArray_and_some plans (\<lambda>p. strict_eq (opt_prop (Some p) ''key'') key)
                 then True
                 else False)"

section \<open>Strings\<close>

text \<open>\<open>s.split(" ")\<close>: the fields between single spaces, empty fields included.\<close>

fun split_space :: "string \<Rightarrow> string list" where
  "split_space [] = [[]]"
| "split_space (c # cs) =
     (if c = CHR '' '' then [] # split_space cs
      else (case split_space cs of
              [] \<Rightarrow> [[c]]
            | w # ws \<Rightarrow> (c # w) # ws))"

text \<open>\<open>xs[i]\<close> on an array: \<open>undefined\<close> out of range.\<close>

definition index :: "'a list \<Rightarrow> nat \<Rightarrow> 'a option" where
  "index xs i = (if i < length xs then Some (xs ! i) else None)"

text \<open>A string in a template literal; \<open>undefined\<close> prints as its name.\<close>

fun template_str :: "string option \<Rightarrow> string" where
  "template_str None = ''undefined''"
| "template_str (Some s) = s"

text \<open>A non-negative integer in a template literal: its decimal digits.\<close>

definition digit :: "nat \<Rightarrow> char" where
  "digit d = ''0123456789'' ! d"

function template_nat :: "nat \<Rightarrow> string" where
  "template_nat n = (if n < 10 then [digit n] else template_nat (n div 10) @ [digit (n mod 10)])"
  by pat_completeness auto
termination
  by (relation "measure id") auto

text \<open>Truthiness of a string that may be \<open>undefined\<close> or \<open>null\<close>.\<close>

fun truthy :: "string option \<Rightarrow> bool" where
  "truthy None = False"
| "truthy (Some s) = (s \<noteq> [])"

text \<open>\<open>a || b\<close> on such strings.\<close>

definition or_else :: "string option \<Rightarrow> string option \<Rightarrow> string option" where
  "or_else a b = (if truthy a then a else b)"

text \<open>\<open>a || s\<close> where \<open>s\<close> is a string literal.\<close>

definition or_default :: "string option \<Rightarrow> string \<Rightarrow> string" where
  "or_default a s = (case a of None \<Rightarrow> s | Some x \<Rightarrow> if x \<noteq> [] then x else s)"

section \<open>Header lists\<close>

text \<open>
  A \<open>Headers\<close> object is a list of name and value pairs; names are compared without
  regard to the case of ASCII letters.
\<close>

type_synonym headers = "(string \<times> string) list"

definition lower :: "char \<Rightarrow> char" where
  "lower c =
     (case map_of (zip ''ABCDEFGHIJKLMNOPQRSTUVWXYZ'' ''abcdefghijklmnopqrstuvwxyz'') c of
        None \<Rightarrow> c
      | Some l \<Rightarrow> l)"

definition lowercase :: "string \<Rightarrow> string" where
  "lowercase s = map lower s"

definition name_eq :: "string \<Rightarrow> string \<Rightarrow> bool" where
  "name_eq a b = (lowercase a = lowercase b)"

fun join_values :: "string list \<Rightarrow> string" where
  "join_values [] = []"
| "join_values [v] = v"
| "join_values (v # vs) = v @ '', '' @ join_values vs"

definition headers_get :: "headers \<Rightarrow> string \<Rightarrow> string option" where
  "headers_get hs n =
     (case filter (\<lambda>(k, v). name_eq k n) hs of
        [] \<Rightarrow> None
      | kvs \<Rightarrow> Some (join_values (map snd kvs)))"

definition headers_delete :: "headers \<Rightarrow> string \<Rightarrow> headers" where
  "headers_delete hs n = filter (\<lambda>(k, v). \<not> name_eq k n) hs"

fun headers_set :: "headers \<Rightarrow> string \<Rightarrow> string \<Rightarrow> headers" where
  "headers_set [] n v = [(n, v)]"
| "headers_set ((k, w) # hs) n v =
     (if name_eq k n then (k, v) # headers_delete hs n
      else (k, w) # headers_set hs n v)"

section \<open>Requests, responses and the network\<close>

record env =
  KINDE_DOMAIN :: string
  OPENAI_API_KEY :: string
  ALLOWED_ORIGIN :: "string option"
  DEV_PRO_TOKEN :: "string option"

text \<open>
  The inbound request: its method, its headers and the text that \<open>request.text()\<close>
  returns.
\<close>

record request =
  req_method :: string
  req_headers :: headers
  req_text :: string

text \<open>
  The body given to a \<open>Response\<close>: \<open>null\<close>, the text \<open>JSON.stringify(v)\<close>
  (represented by \<open>v\<close>), or the body stream of the upstream response.
\<close>

datatype 'n body =
    NullBody
  | JsonText "'n json"
  | UpstreamBody string

text \<open>
  A response is the arguments given to the \<open>Response\<close> constructor; the status is 200
  where the code gives none.
\<close>

record 'n response =
  status :: nat
  headers :: headers
  body :: "'n body"

text \<open>A call of the global \<open>fetch\<close>: the URL and the options the code passes.\<close>

record out_request =
  url :: string
  out_method :: string
  out_headers :: headers
  out_body :: "string option"
  cacheTtl :: "nat option"

text \<open>
  What such a call resolves to: the status, the headers, the body, and the result of
  \<open>.json()\<close> on it (\<open>None\<close> when that promise rejects).
\<close>

record 'n net_response =
  net_status :: nat
  net_headers :: headers
  net_body :: string
  net_json :: "'n json option"

text \<open>The network answers a call, or the call rejects (\<open>None\<close>).\<close>

type_synonym 'n network = "out_request \<Rightarrow> 'n net_response option"

text \<open>
  The handler fails where an awaited outbound call rejects (\<open>NetworkFailure\<close>), or
  where it would return the \<open>error\<close> of a validation that has none
  (\<open>NoResponse\<close>).
\<close>

datatype fetch_error = NetworkFailure | NoResponse

text \<open>\<open>Response.ok\<close>: the status is in the range 200 to 299.\<close>

definition ok :: "'n net_response \<Rightarrow> bool" where
  "ok r = (200 \<le> net_status r \<and> net_status r \<le> 299)"

section \<open>The gateway\<close>

definition cors :: "string option \<Rightarrow> env \<Rightarrow> headers" where
  "cors origin env =
     [(''Access-Control-Allow-Origin'',
         or_default (or_else (ALLOWED_ORIGIN env) origin) ''*''),
      (''Access-Control-Allow-Methods'', ''POST, OPTIONS''),
      (''Access-Control-Allow-Headers'', ''Authorization, Content-Type'')]"

definition handleOptions :: "request \<Rightarrow> env \<Rightarrow> 'n response" where
  "handleOptions req env =
     (let hdrs = cors (headers_get (req_headers req) ''Origin'') env
      in if truthy (headers_get (req_headers req) ''Origin'') \<and>
            truthy (headers_get (req_headers req) ''Access-Control-Request-Method'') \<and>
            truthy (headers_get (req_headers req) ''Access-Control-Request-Headers'')
         then \<lparr>status = 200, headers = hdrs, body = NullBody\<rparr>
         else \<lparr>status = 200, headers = (''Allow'', ''POST, OPTIONS'') # hdrs, body = NullBody\<rparr>)"

definition REQUIRED_FEATURE :: string where
  "REQUIRED_FEATURE = ''ai_preprocessing''"

definition entitlementsUrl :: "env \<Rightarrow> string" where
  "entitlementsUrl env =
     (let issuer = (if prefix ''http'' (KINDE_DOMAIN env) then KINDE_DOMAIN env
                    else ''https://'' @ KINDE_DOMAIN env)
      in issuer @ ''/account_api/v1/entitlements'')"

definition kinde_request :: "string option \<Rightarrow> env \<Rightarrow> out_request" where
  "kinde_request userAccessToken env =
     \<lparr>url = entitlementsUrl env,
      out_method = ''GET'',
      out_headers = [(''Authorization'', ''Bearer '' @ template_str userAccessToken)],
      out_body = None,
      cacheTtl = Some 0\<rparr>"

text \<open>The result \<open>{ success, error? }\<close> of the validation.\<close>

record 'n validation =
  success :: bool
  error :: "'n response option"

text \<open>
  \<open>validateKindeAccess\<close> returns its result and the calls it made; a rejected
  \<open>fetch\<close> rejects the validation.
\<close>

definition validateKindeAccess ::
  "string option \<Rightarrow> env \<Rightarrow> 'n network \<Rightarrow> (fetch_error + 'n validation) \<times> out_request list" where
  "validateKindeAccess userAccessToken env net =
     (case net (kinde_request userAccessToken env) of
        None \<Rightarrow> (Inl NetworkFailure, [kinde_request userAccessToken env])
      | Some entRes \<Rightarrow>
          (let entJson = (case net_json entRes of None \<Rightarrow> JObject [] | Some j \<Rightarrow> j)
           in if \<not> ok entRes
              then Inr \<lparr>success = False,
                        error = Some \<lparr>status = net_status entRes,
                                      headers = cors None env,
                                      body = JsonText (JObject
                                        [(''message'', JString (''Error: Kinde Account API returned ''
                                                                 @ template_nat (net_status entRes))),
                                         (''details'', entJson)])\<rparr>\<rparr>
              else if \<not> hasEntitlement (Some entJson) REQUIRED_FEATURE
              then Inr \<lparr>success = False,
                        error = Some \<lparr>status = 403,
                                      headers = cors None env,
                                      body = JsonText (JObject
                                        [(''success'', JBool False),
                                         (''message'', JString (''Error: Permission '' @ [CHR 0x27]
                                                                 @ REQUIRED_FEATURE @ [CHR 0x27]
                                                                 @ '' not found.''))])\<rparr>\<rparr>
              else Inr \<lparr>success = True, error = None\<rparr>,
           [kinde_request userAccessToken env]))"

definition openai_request :: "env \<Rightarrow> string \<Rightarrow> out_request" where
  "openai_request env payload =
     \<lparr>url = ''https://api.openai.com/v1/chat/completions'',
      out_method = ''POST'',
      out_headers = [(''Authorization'', ''Bearer '' @ OPENAI_API_KEY env),
                     (''Content-Type'', ''application/json''),
                     (''Accept'', ''text/event-stream'')],
      out_body = Some payload,
      cacheTtl = None\<rparr>"

text \<open>The third step of \<open>fetch\<close>: forward the body and rewrite the headers.\<close>

definition relay ::
  "request \<Rightarrow> env \<Rightarrow> 'n network \<Rightarrow> (fetch_error + 'n response) \<times> out_request list" where
  "relay request env net =
     (let payload = req_text request
      in case net (openai_request env payload) of
           None \<Rightarrow> (Inl NetworkFailure, [openai_request env payload])
         | Some upstream \<Rightarrow>
             (let hdrs = net_headers upstream;
                  hdrs = headers_set hdrs ''Content-Type'' ''text/event-stream; charset=utf-8'';
                  hdrs = headers_set hdrs ''Cache-Control'' ''no-store'';
                  hdrs = headers_delete hdrs ''Content-Encoding'';
                  baseCors = cors (headers_get (req_headers request) ''Origin'') env;
                  hdrs = foldl (\<lambda>h (k, v). headers_set h k v) hdrs baseCors
              in (Inr \<lparr>status = net_status upstream, headers = hdrs,
                       body = UpstreamBody (net_body upstream)\<rparr>,
                  [openai_request env payload])))"

definition fetch ::
  "request \<Rightarrow> env \<Rightarrow> 'n network \<Rightarrow> (fetch_error + 'n response) \<times> out_request list" where
  "fetch request env net =
     (if req_method request = ''OPTIONS'' then (Inr (handleOptions request env), [])
      else if req_method request \<noteq> ''POST''
      then (Inr \<lparr>status = 405,
                 headers = cors (headers_get (req_headers request) ''Origin'') env,
                 body = JsonText (JObject [(''message'', JString ''Error: Expected POST request.'')])\<rparr>,
            [])
      else
        (let unauthorized =
               (Inr \<lparr>status = 401,
                     headers = cors (headers_get (req_headers request) ''Origin'') env,
                     body = JsonText (JObject
                       [(''message'', JString ''Error: Missing or invalid Authorization header.'')])\<rparr>,
                [])
         in case headers_get (req_headers request) ''Authorization'' of
              None \<Rightarrow> unauthorized
            | Some authHeader \<Rightarrow>
                if \<not> prefix ''Bearer '' authHeader then unauthorized
                else
                  (let userAccessToken = index (split_space authHeader) 1
                   in if truthy (DEV_PRO_TOKEN env) \<and> userAccessToken = DEV_PRO_TOKEN env
                      then relay request env net
                      else
                        (case validateKindeAccess userAccessToken env net of
                           (Inl e, calls) \<Rightarrow> (Inl e, calls)
                         | (Inr validation, calls) \<Rightarrow>
                             if \<not> success validation
                             then (case error validation of
                                     None \<Rightarrow> (Inl NoResponse, calls)
                                   | Some r \<Rightarrow> (Inr r, calls))
                             else (case relay request env net of
                                     (res, calls') \<Rightarrow> (res, calls @ calls'))))))"

section \<open>Properties of header lists\<close>

lemma name_eq_refl: "name_eq a a"
  by (simp add: name_eq_def)

lemma name_eq_sym: "name_eq a b = name_eq b a"
  by (auto simp add: name_eq_def)

lemma name_eq_trans: "name_eq a b \<Longrightarrow> name_eq b c \<Longrightarrow> name_eq a c"
  by (simp add: name_eq_def)

lemma lowercase_names:
  "lowercase ''Access-Control-Allow-Origin'' = ''access-control-allow-origin''"
  "lowercase ''Access-Control-Allow-Methods'' = ''access-control-allow-methods''"
  "lowercase ''Access-Control-Allow-Headers'' = ''access-control-allow-headers''"
  "lowercase ''Access-Control-Request-Method'' = ''access-control-request-method''"
  "lowercase ''Access-Control-Request-Headers'' = ''access-control-request-headers''"
  "lowercase ''Content-Type'' = ''content-type''"
  "lowercase ''Content-Encoding'' = ''content-encoding''"
  "lowercase ''Cache-Control'' = ''cache-control''"
  "lowercase ''Authorization'' = ''authorization''"
  "lowercase ''Accept'' = ''accept''"
  "lowercase ''Allow'' = ''allow''"
  "lowercase ''Origin'' = ''origin''"
  by (simp_all add: lowercase_def lower_def)

lemma matching_delete:
  "filter (\<lambda>(k, v). name_eq k m) (headers_delete hs n) =
     (if name_eq n m then [] else filter (\<lambda>(k, v). name_eq k m) hs)"
  by (induction hs) (auto simp: headers_delete_def name_eq_def)

lemma headers_get_delete:
  "headers_get (headers_delete hs n) m = (if name_eq n m then None else headers_get hs m)"
  by (simp add: headers_get_def matching_delete)

lemma matching_set_other:
  "\<not> name_eq n m \<Longrightarrow>
   filter (\<lambda>(k, v). name_eq k m) (headers_set hs n v) = filter (\<lambda>(k, v). name_eq k m) hs"
proof (induction hs)
  case Nil
  then show ?case by simp
next
  case (Cons a hs)
  obtain k w where a: "a = (k, w)" by (cases a)
  show ?case
  proof (cases "name_eq k n")
    case True
    with Cons.prems have "\<not> name_eq k m" by (auto simp: name_eq_def)
    with True Cons.prems show ?thesis by (simp add: a matching_delete)
  next
    case False
    with Cons show ?thesis by (simp add: a)
  qed
qed

lemma matching_set_same:
  "name_eq n m \<Longrightarrow> \<exists>k. filter (\<lambda>(k, v). name_eq k m) (headers_set hs n v) = [(k, v)]"
proof (induction hs)
  case Nil
  then show ?case by simp
next
  case (Cons a hs)
  obtain k w where a: "a = (k, w)" by (cases a)
  show ?case
  proof (cases "name_eq k n")
    case True
    with Cons.prems have "name_eq k m" by (auto simp: name_eq_def)
    with True Cons.prems show ?thesis by (simp add: a matching_delete)
  next
    case False
    with Cons.prems have "\<not> name_eq k m" by (auto simp: name_eq_def)
    with False Cons show ?thesis by (simp add: a)
  qed
qed

lemma headers_get_set:
  "headers_get (headers_set hs n v) m = (if name_eq n m then Some v else headers_get hs m)"
proof (cases "name_eq n m")
  case True
  then obtain k where "filter (\<lambda>(k, v). name_eq k m) (headers_set hs n v) = [(k, v)]"
    using matching_set_same by blast
  with True show ?thesis by (simp add: headers_get_def)
next
  case False
  then show ?thesis by (simp add: headers_get_def matching_set_other)
qed


section \<open>The bearer token\<close>

lemma split_space_not_Nil: "split_space s \<noteq> []"
  by (induction s) (auto split: list.splits)

lemma hd_split_space: "hd (split_space s) = takeWhile (\<lambda>c. c \<noteq> CHR '' '') s"
  by (induction s) (auto split: list.splits simp: split_space_not_Nil)

lemma split_space_Bearer: "split_space (''Bearer '' @ t) = ''Bearer'' # split_space t"
  by simp

lemma bearer_token:
  assumes "prefix ''Bearer '' h"
  shows "index (split_space h) 1 = Some (takeWhile (\<lambda>c. c \<noteq> CHR '' '') (drop 7 h))"
proof -
  from assms obtain t where h: "h = ''Bearer '' @ t" by (auto simp: prefix_def)
  have d: "drop 7 h = t" by (simp add: h)
  obtain w ws where ws: "split_space t = w # ws"
    using split_space_not_Nil [of t] by (cases "split_space t") auto
  have "w = takeWhile (\<lambda>c. c \<noteq> CHR '' '') t"
    using hd_split_space [of t] ws by simp
  moreover have "split_space h = ''Bearer'' # w # ws"
    unfolding h split_space_Bearer ws ..
  ultimately show ?thesis by (simp add: index_def d)
qed

lemma snd_validateKindeAccess:
  "snd (validateKindeAccess t env net) = [kinde_request t env]"
  by (simp add: validateKindeAccess_def Let_def split: option.splits)

text \<open>
  C10. For a POST request whose Authorization header \<open>h\<close> starts with \<open>Bearer \<close>, the
  token used is the second space-separated field of \<open>h\<close>, that is, the text after the
  prefix up to the next space: \<open>Bearer a b\<close> gives \<open>a\<close> and \<open>Bearer \<close> gives the
  empty token. The bypass is taken only for a non-empty token equal to
  \<open>DEV_PRO_TOKEN\<close> (so an empty \<open>DEV_PRO_TOKEN\<close> never matches); otherwise the first
  outbound call is the entitlement call of the identity provider, with that token, the
  empty one included, as bearer credential.
\<close>

theorem bearer_token_second_field:
  assumes "req_method request = ''POST''"
    and "headers_get (req_headers request) ''Authorization'' = Some h"
    and "prefix ''Bearer '' h"
  defines "tok \<equiv> takeWhile (\<lambda>c. c \<noteq> CHR '' '') (drop 7 h)"
  shows "index (split_space h) 1 = Some tok \<and>
         (if tok \<noteq> [] \<and> DEV_PRO_TOKEN env = Some tok
          then fetch request env net = relay request env net
          else snd (fetch request env net) \<noteq> [] \<and>
               hd (snd (fetch request env net)) = kinde_request (Some tok) env \<and>
               out_headers (kinde_request (Some tok) env) = [(''Authorization'', ''Bearer '' @ tok)]) \<and>
         (\<forall>a b. h = ''Bearer '' @ a @ '' '' @ b \<and> CHR '' '' \<notin> set a \<longrightarrow> tok = a) \<and>
         (h = ''Bearer '' \<longrightarrow> tok = [])"
proof -
  have tok: "index (split_space h) 1 = Some tok"
    unfolding tok_def using assms(3) by (rule bearer_token)
  have ab: "tok = a" if "h = ''Bearer '' @ a @ '' '' @ b \<and> CHR '' '' \<notin> set a" for a b
  proof -
    from that have "takeWhile (\<lambda>c. c \<noteq> CHR '' '') (a @ '' '' @ b)
        = a @ takeWhile (\<lambda>c. c \<noteq> CHR '' '') ('' '' @ b)"
      by (intro takeWhile_append2) auto
    with that show ?thesis by (simp add: tok_def)
  qed
  have empty: "tok = []" if "h = ''Bearer ''"
    using that by (simp add: tok_def)
  have main: "if tok \<noteq> [] \<and> DEV_PRO_TOKEN env = Some tok
          then fetch request env net = relay request env net
          else snd (fetch request env net) \<noteq> [] \<and>
               hd (snd (fetch request env net)) = kinde_request (Some tok) env \<and>
               out_headers (kinde_request (Some tok) env) = [(''Authorization'', ''Bearer '' @ tok)]"
  proof (cases "tok \<noteq> [] \<and> DEV_PRO_TOKEN env = Some tok")
    case True
    with assms(1-3) tok show ?thesis
      by (simp add: fetch_def Let_def)
  next
    case False
    then have nb: "\<not> (truthy (DEV_PRO_TOKEN env) \<and> Some tok = DEV_PRO_TOKEN env)"
      by (cases "DEV_PRO_TOKEN env") auto
    obtain res calls where v: "validateKindeAccess (Some tok) env net = (res, calls)"
      by (cases "validateKindeAccess (Some tok) env net")
    then have calls: "calls = [kinde_request (Some tok) env]"
      using snd_validateKindeAccess [of "Some tok" env net] by simp
    have "snd (fetch request env net) \<noteq> [] \<and>
          hd (snd (fetch request env net)) = kinde_request (Some tok) env"
      using assms(1-3) tok nb v calls
      by (auto simp add: fetch_def Let_def split: sum.splits option.splits prod.splits)
    moreover have "out_headers (kinde_request (Some tok) env) = [(''Authorization'', ''Bearer '' @ tok)]"
      by (simp add: kinde_request_def)
    ultimately show ?thesis
      using False by auto
  qed
  from tok main ab empty show ?thesis by blast
qed

theorem bearer_token_second_field_witness:
  "req_method \<lparr>req_method = ''POST'', req_headers = [(''authorization'', ''Bearer a b'')], req_text = ''{}''\<rparr> = ''POST'' \<and>
   headers_get (req_headers \<lparr>req_method = ''POST'', req_headers = [(''authorization'', ''Bearer a b'')], req_text = ''{}''\<rparr>)
     ''Authorization'' = Some ''Bearer a b'' \<and>
   prefix ''Bearer '' ''Bearer a b'' \<and>
   index (split_space ''Bearer a b'') 1 = Some ''a'' \<and>
   hd (snd (fetch \<lparr>req_method = ''POST'', req_headers = [(''authorization'', ''Bearer a b'')], req_text = ''{}''\<rparr>
                  \<lparr>KINDE_DOMAIN = ''biz.kinde.com'', OPENAI_API_KEY = ''sk-secret'',
                   ALLOWED_ORIGIN = None, DEV_PRO_TOKEN = Some ''''\<rparr>
                  (Map.empty :: int network)))
     = kinde_request (Some ''a'')
         \<lparr>KINDE_DOMAIN = ''biz.kinde.com'', OPENAI_API_KEY = ''sk-secret'',
          ALLOWED_ORIGIN = None, DEV_PRO_TOKEN = Some ''''\<rparr>"
  using bearer_token_second_field
    [of "\<lparr>req_method = ''POST'', req_headers = [(''authorization'', ''Bearer a b'')], req_text = ''{}''\<rparr>"
        "''Bearer a b''"
        "\<lparr>KINDE_DOMAIN = ''biz.kinde.com'', OPENAI_API_KEY = ''sk-secret'',
          ALLOWED_ORIGIN = None, DEV_PRO_TOKEN = Some ''''\<rparr>"
        "Map.empty :: int network"]
  by (simp add: headers_get_def name_eq_def lowercase_def lower_def)

section \<open>Outbound calls\<close>

lemma entitlementsUrl_not_completions:
  "entitlementsUrl env \<noteq> ''https://api.openai.com/v1/chat/completions''"
proof
  assume "entitlementsUrl env = ''https://api.openai.com/v1/chat/completions''"
  then obtain xs where
    "xs @ ''/account_api/v1/entitlements'' = ''https://api.openai.com/v1/chat/completions''"
    by (auto simp: entitlementsUrl_def Let_def split: if_splits)
  then have "last (butlast (xs @ ''/account_api/v1/entitlements''))
             = last (butlast ''https://api.openai.com/v1/chat/completions'')"
    by simp
  then show False
    by (simp add: butlast_append)
qed

lemma snd_relay: "snd (relay request env net) = [openai_request env (req_text request)]"
  by (simp add: relay_def Let_def split: option.splits)

lemma url_openai_request: "url (openai_request env t) = ''https://api.openai.com/v1/chat/completions''"
  by (simp add: openai_request_def)

lemma url_kinde_request: "url (kinde_request t env) = entitlementsUrl env"
  by (simp add: kinde_request_def)

text \<open>
  C4. For a POST request whose extracted bearer token equals a configured, non-empty
  \<open>DEV_PRO_TOKEN\<close>, the gateway goes straight to the relay step: the only outbound call
  is the one to the completion API, and the entitlement endpoint of the identity provider
  is not called.
\<close>

theorem dev_bypass_skips_identity_provider:
  assumes "req_method request = ''POST''"
    and "headers_get (req_headers request) ''Authorization'' = Some h"
    and "prefix ''Bearer '' h"
    and "index (split_space h) 1 = Some tok"
    and "DEV_PRO_TOKEN env = Some tok"
    and "tok \<noteq> []"
  shows "fetch request env net = relay request env net \<and>
         snd (fetch request env net) = [openai_request env (req_text request)] \<and>
         (\<forall>c \<in> set (snd (fetch request env net)). url c \<noteq> entitlementsUrl env)"
proof -
  have f: "fetch request env net = relay request env net"
    using assms by (simp add: fetch_def Let_def)
  then have s: "snd (fetch request env net) = [openai_request env (req_text request)]"
    by (simp add: snd_relay)
  have "url (openai_request env (req_text request)) \<noteq> entitlementsUrl env"
    using entitlementsUrl_not_completions [of env] by (simp add: url_openai_request)
  with f s show ?thesis by simp
qed

theorem dev_bypass_skips_identity_provider_witness:
  "req_method \<lparr>req_method = ''POST'', req_headers = [(''Authorization'', ''Bearer dev-token'')], req_text = ''{}''\<rparr> = ''POST'' \<and>
   headers_get (req_headers \<lparr>req_method = ''POST'', req_headers = [(''Authorization'', ''Bearer dev-token'')], req_text = ''{}''\<rparr>)
     ''Authorization'' = Some ''Bearer dev-token'' \<and>
   prefix ''Bearer '' ''Bearer dev-token'' \<and>
   index (split_space ''Bearer dev-token'') 1 = Some ''dev-token'' \<and>
   DEV_PRO_TOKEN \<lparr>KINDE_DOMAIN = ''biz.kinde.com'', OPENAI_API_KEY = ''sk-secret'',
                  ALLOWED_ORIGIN = None, DEV_PRO_TOKEN = Some ''dev-token''\<rparr> = Some ''dev-token'' \<and>
   ''dev-token'' \<noteq> [] \<and>
   snd (fetch \<lparr>req_method = ''POST'', req_headers = [(''Authorization'', ''Bearer dev-token'')], req_text = ''{}''\<rparr>
              \<lparr>KINDE_DOMAIN = ''biz.kinde.com'', OPENAI_API_KEY = ''sk-secret'',
               ALLOWED_ORIGIN = None, DEV_PRO_TOKEN = Some ''dev-token''\<rparr>
              (Map.empty :: int network))
     = [openai_request \<lparr>KINDE_DOMAIN = ''biz.kinde.com'', OPENAI_API_KEY = ''sk-secret'',
                        ALLOWED_ORIGIN = None, DEV_PRO_TOKEN = Some ''dev-token''\<rparr> ''{}'']"
proof -
  have c: "snd (fetch \<lparr>req_method = ''POST'', req_headers = [(''Authorization'', ''Bearer dev-token'')], req_text = ''{}''\<rparr>
              \<lparr>KINDE_DOMAIN = ''biz.kinde.com'', OPENAI_API_KEY = ''sk-secret'',
               ALLOWED_ORIGIN = None, DEV_PRO_TOKEN = Some ''dev-token''\<rparr>
              (Map.empty :: int network))
     = [openai_request \<lparr>KINDE_DOMAIN = ''biz.kinde.com'', OPENAI_API_KEY = ''sk-secret'',
                        ALLOWED_ORIGIN = None, DEV_PRO_TOKEN = Some ''dev-token''\<rparr>
          (req_text \<lparr>req_method = ''POST'', req_headers = [(''Authorization'', ''Bearer dev-token'')], req_text = ''{}''\<rparr>)]"
    by (rule dev_bypass_skips_identity_provider [where h = "''Bearer dev-token''" and tok = "''dev-token''", THEN conjunct2, THEN conjunct1])
       (simp_all add: headers_get_def name_eq_def lowercase_def lower_def index_def)
  then show ?thesis
    by (simp add: headers_get_def name_eq_def lowercase_def lower_def index_def)
qed

section \<open>Validation by the identity provider\<close>

lemma fetch_validated:
  assumes "req_method request = ''POST''"
    and "headers_get (req_headers request) ''Authorization'' = Some h"
    and "prefix ''Bearer '' h"
    and "\<not> (truthy (DEV_PRO_TOKEN env) \<and> index (split_space h) 1 = DEV_PRO_TOKEN env)"
    and "net (kinde_request (index (split_space h) 1) env) = Some entRes"
  shows "fetch request env net =
     (if \<not> ok entRes
      then (Inr \<lparr>status = net_status entRes,
                 headers = cors None env,
                 body = JsonText (JObject
                   [(''message'', JString (''Error: Kinde Account API returned ''
                                            @ template_nat (net_status entRes))),
                    (''details'', case net_json entRes of None \<Rightarrow> JObject [] | Some j \<Rightarrow> j)])\<rparr>,
            [kinde_request (index (split_space h) 1) env])
      else if \<not> hasEntitlement (Some (case net_json entRes of None \<Rightarrow> JObject [] | Some j \<Rightarrow> j))
                   REQUIRED_FEATURE
      then (Inr \<lparr>status = 403,
                 headers = cors None env,
                 body = JsonText (JObject
                   [(''success'', JBool False),
                    (''message'', JString (''Error: Permission '' @ [CHR 0x27]
                                            @ REQUIRED_FEATURE @ [CHR 0x27] @ '' not found.''))])\<rparr>,
            [kinde_request (index (split_space h) 1) env])
      else (fst (relay request env net),
            kinde_request (index (split_space h) 1) env # snd (relay request env net)))"
proof -
  have f: "fetch request env net =
      (case validateKindeAccess (index (split_space h) 1) env net of
         (Inl e, calls) \<Rightarrow> (Inl e, calls)
       | (Inr validation, calls) \<Rightarrow>
           if \<not> success validation
           then (case error validation of
                   None \<Rightarrow> (Inl NoResponse, calls)
                 | Some r \<Rightarrow> (Inr r, calls))
           else (case relay request env net of
                   (res, calls') \<Rightarrow> (res, calls @ calls')))"
    using assms(1-4) by (auto simp add: fetch_def Let_def)
  show ?thesis
    unfolding f using assms(5)
    by (simp add: validateKindeAccess_def Let_def split: prod.splits)
qed



section \<open>Entitlement evaluation\<close>

lemma isArray_and_some_iff:
  "isArray_and_some v p = (\<exists>xs. v = Some (JArray xs) \<and> (\<exists>x\<in>set xs. p x))"
  by (induction v p rule: isArray_and_some.induct) (auto simp: list_ex_iff)

lemma nullish_iff: "nullish a b = (if a = None \<or> a = Some JNull then b else a)"
  by (induction a b rule: nullish.induct) auto

lemma hasEntitlement_iff:
  "hasEntitlement payload key =
     ((\<exists>fs. (if opt_prop (opt_prop payload ''data'') ''entitlements'' \<notin> {None, Some JNull}
              then opt_prop (opt_prop payload ''data'') ''entitlements''
              else opt_prop (opt_prop payload ''data'') ''features'') = Some (JArray fs) \<and>
            (\<exists>f\<in>set fs. opt_prop (Some f) ''key'' = Some (JString key) \<or>
                         opt_prop (Some f) ''feature_key'' = Some (JString key))) \<or>
      (\<exists>ps. opt_prop (opt_prop payload ''data'') ''plans'' = Some (JArray ps) \<and>
            (\<exists>p\<in>set ps. opt_prop (Some p) ''key'' = Some (JString key))))"
  by (auto simp add: hasEntitlement_def Let_def isArray_and_some_iff nullish_iff strict_eq_def)

text \<open>
  C6. With a successful provider response whose payload is
  \<open>data.entitlements = [{feature_key: "ai_preprocessing"}]\<close> the request is authorized
  and goes on to the relay step. With \<open>data.entitlements = [{key: "other"}]\<close> and no
  plan whose key is the capability (whatever else the \<open>data\<close> object holds), the
  gateway answers 403 with a JSON body whose message contains the capability name
  \<open>ai_preprocessing\<close>.
\<close>

theorem entitlement_examples:
  assumes "req_method request = ''POST''"
    and "headers_get (req_headers request) ''Authorization'' = Some h"
    and "prefix ''Bearer '' h"
    and "\<not> (truthy (DEV_PRO_TOKEN env) \<and> index (split_space h) 1 = DEV_PRO_TOKEN env)"
    and "net (kinde_request (index (split_space h) 1) env) = Some entRes"
    and "ok entRes"
  shows "(net_json entRes = Some (JObject [(''data'', JObject
            [(''entitlements'', JArray [JObject [(''feature_key'', JString ''ai_preprocessing'')]])])])
          \<longrightarrow> fetch request env net =
                (fst (relay request env net),
                 kinde_request (index (split_space h) 1) env # snd (relay request env net))) \<and>
         (net_json entRes = Some (JObject [(''data'', JObject
            ((''entitlements'', JArray [JObject [(''key'', JString ''other'')]]) # rest))]) \<and>
          (\<forall>ps. map_of rest ''plans'' = Some (JArray ps) \<longrightarrow>
                (\<forall>p\<in>set ps. opt_prop (Some p) ''key'' \<noteq> Some (JString ''ai_preprocessing'')))
          \<longrightarrow> (\<exists>r msg pre post.
                 fetch request env net = (Inr r, [kinde_request (index (split_space h) 1) env]) \<and>
                 status r = 403 \<and>
                 body r = JsonText (JObject [(''success'', JBool False), (''message'', JString msg)]) \<and>
                 msg = pre @ ''ai_preprocessing'' @ post))"
proof (intro conjI impI)
  assume "net_json entRes = Some (JObject [(''data'', JObject
            [(''entitlements'', JArray [JObject [(''feature_key'', JString ''ai_preprocessing'')]])])])"
  then have "hasEntitlement (Some (case net_json entRes of None \<Rightarrow> JObject [] | Some j \<Rightarrow> j))
               REQUIRED_FEATURE"
    by (simp add: hasEntitlement_iff REQUIRED_FEATURE_def)
  with assms(6) show "fetch request env net =
      (fst (relay request env net),
       kinde_request (index (split_space h) 1) env # snd (relay request env net))"
    by (simp add: fetch_validated [of request h env net entRes, OF assms(1-5)])
next
  assume a: "net_json entRes = Some (JObject [(''data'', JObject
            ((''entitlements'', JArray [JObject [(''key'', JString ''other'')]]) # rest))]) \<and>
          (\<forall>ps. map_of rest ''plans'' = Some (JArray ps) \<longrightarrow>
                (\<forall>p\<in>set ps. opt_prop (Some p) ''key'' \<noteq> Some (JString ''ai_preprocessing'')))"
  then have "\<not> hasEntitlement (Some (case net_json entRes of None \<Rightarrow> JObject [] | Some j \<Rightarrow> j))
               REQUIRED_FEATURE"
    by (auto simp add: hasEntitlement_iff REQUIRED_FEATURE_def)
  with assms(6) have f: "fetch request env net =
      (Inr \<lparr>status = 403, headers = cors None env,
            body = JsonText (JObject
              [(''success'', JBool False),
               (''message'', JString (''Error: Permission '' @ [CHR 0x27]
                                       @ REQUIRED_FEATURE @ [CHR 0x27] @ '' not found.''))])\<rparr>,
       [kinde_request (index (split_space h) 1) env])"
    by (simp add: fetch_validated [of request h env net entRes, OF assms(1-5)])
  have "''Error: Permission '' @ [CHR 0x27] @ REQUIRED_FEATURE @ [CHR 0x27] @ '' not found.''
        = (''Error: Permission '' @ [CHR 0x27]) @ ''ai_preprocessing'' @ ([CHR 0x27] @ '' not found.'')"
    by (simp add: REQUIRED_FEATURE_def)
  with f show "\<exists>r msg pre post.
                 fetch request env net = (Inr r, [kinde_request (index (split_space h) 1) env]) \<and>
                 status r = 403 \<and>
                 body r = JsonText (JObject [(''success'', JBool False), (''message'', JString msg)]) \<and>
                 msg = pre @ ''ai_preprocessing'' @ post"
    by (metis response.select_convs(1) response.select_convs(3))
qed

theorem entitlement_examples_witness:
  "fetch \<lparr>req_method = ''POST'', req_headers = [(''Authorization'', ''Bearer user-token'')], req_text = ''{}''\<rparr>
         \<lparr>KINDE_DOMAIN = ''biz.kinde.com'', OPENAI_API_KEY = ''sk-secret'',
          ALLOWED_ORIGIN = None, DEV_PRO_TOKEN = None\<rparr>
         (\<lambda>c. Some \<lparr>net_status = 200, net_headers = [], net_body = ''ok'',
                      net_json = Some (JObject [(''data'', JObject
                        [(''entitlements'',
                          JArray [JObject [(''feature_key'', JString ''ai_preprocessing'')]])])]
                        :: int json)\<rparr>)
     = (fst (relay \<lparr>req_method = ''POST'', req_headers = [(''Authorization'', ''Bearer user-token'')], req_text = ''{}''\<rparr>
              \<lparr>KINDE_DOMAIN = ''biz.kinde.com'', OPENAI_API_KEY = ''sk-secret'',
               ALLOWED_ORIGIN = None, DEV_PRO_TOKEN = None\<rparr>
              (\<lambda>c. Some \<lparr>net_status = 200, net_headers = [], net_body = ''ok'',
                      net_json = Some (JObject [(''data'', JObject
                        [(''entitlements'',
                          JArray [JObject [(''feature_key'', JString ''ai_preprocessing'')]])])]
                        :: int json)\<rparr>)),
        [kinde_request (Some ''user-token'')
           \<lparr>KINDE_DOMAIN = ''biz.kinde.com'', OPENAI_API_KEY = ''sk-secret'',
            ALLOWED_ORIGIN = None, DEV_PRO_TOKEN = None\<rparr>,
         openai_request
           \<lparr>KINDE_DOMAIN = ''biz.kinde.com'', OPENAI_API_KEY = ''sk-secret'',
            ALLOWED_ORIGIN = None, DEV_PRO_TOKEN = None\<rparr> ''{}'']) \<and>
   (\<exists>r. fetch \<lparr>req_method = ''POST'', req_headers = [(''Authorization'', ''Bearer user-token'')], req_text = ''{}''\<rparr>
              \<lparr>KINDE_DOMAIN = ''biz.kinde.com'', OPENAI_API_KEY = ''sk-secret'',
               ALLOWED_ORIGIN = None, DEV_PRO_TOKEN = None\<rparr>
              (\<lambda>c. Some \<lparr>net_status = 200, net_headers = [], net_body = ''ok'',
                      net_json = Some (JObject [(''data'', JObject
                        [(''entitlements'', JArray [JObject [(''key'', JString ''other'')]]),
                         (''plans'', JArray [JObject [(''key'', JString ''basic'')]])])]
                        :: int json)\<rparr>)
          = (Inr r, [kinde_request (Some ''user-token'')
                       \<lparr>KINDE_DOMAIN = ''biz.kinde.com'', OPENAI_API_KEY = ''sk-secret'',
                        ALLOWED_ORIGIN = None, DEV_PRO_TOKEN = None\<rparr>]) \<and>
         status r = 403)"
proof -
  note [simp] = headers_get_def name_eq_def lowercase_def lower_def ok_def index_def snd_relay
  show ?thesis
    using entitlement_examples
      [of "\<lparr>req_method = ''POST'', req_headers = [(''Authorization'', ''Bearer user-token'')], req_text = ''{}''\<rparr>"
          "''Bearer user-token''"
          "\<lparr>KINDE_DOMAIN = ''biz.kinde.com'', OPENAI_API_KEY = ''sk-secret'',
               ALLOWED_ORIGIN = None, DEV_PRO_TOKEN = None\<rparr>"
          "\<lambda>c. Some \<lparr>net_status = 200, net_headers = [], net_body = ''ok'',
                      net_json = Some (JObject [(''data'', JObject
                        [(''entitlements'',
                          JArray [JObject [(''feature_key'', JString ''ai_preprocessing'')]])])]
                        :: int json)\<rparr>"
          "\<lparr>net_status = 200, net_headers = [], net_body = ''ok'',
                      net_json = Some (JObject [(''data'', JObject
                        [(''entitlements'',
                          JArray [JObject [(''feature_key'', JString ''ai_preprocessing'')]])])]
                        :: int json)\<rparr>" "[]", simplified]
      entitlement_examples
      [of "\<lparr>req_method = ''POST'', req_headers = [(''Authorization'', ''Bearer user-token'')], req_text = ''{}''\<rparr>"
          "''Bearer user-token''"
          "\<lparr>KINDE_DOMAIN = ''biz.kinde.com'', OPENAI_API_KEY = ''sk-secret'',
               ALLOWED_ORIGIN = None, DEV_PRO_TOKEN = None\<rparr>"
          "\<lambda>c. Some \<lparr>net_status = 200, net_headers = [], net_body = ''ok'',
                      net_json = Some (JObject [(''data'', JObject
                        [(''entitlements'', JArray [JObject [(''key'', JString ''other'')]]),
                         (''plans'', JArray [JObject [(''key'', JString ''basic'')]])])]
                        :: int json)\<rparr>"
          "\<lparr>net_status = 200, net_headers = [], net_body = ''ok'',
                      net_json = Some (JObject [(''data'', JObject
                        [(''entitlements'', JArray [JObject [(''key'', JString ''other'')]]),
                         (''plans'', JArray [JObject [(''key'', JString ''basic'')]])])]
                        :: int json)\<rparr>"
          "[(''plans'', JArray [JObject [(''key'', JString ''basic'')]])]", simplified]
    by auto
qed

text \<open>
  C1 (as amended). For a successful identity-provider response with payload \<open>p\<close>, the
  request is authorized exactly when the capability \<open>ai_preprocessing\<close> is found in the
  list chosen by \<open>data.entitlements ?? data.features\<close> (the \<open>entitlements\<close> field when
  it is present and not null, the \<open>features\<close> field otherwise), matched by \<open>key\<close> or
  \<open>feature_key\<close>, or in the \<open>data.plans\<close> list, matched by \<open>key\<close>. In particular,
  when \<open>data.entitlements\<close> is absent or null and \<open>data.features\<close> holds an object whose
  \<open>key\<close> or \<open>feature_key\<close> is the capability, the request is authorized.
\<close>

theorem entitlement_search_order:
  assumes "req_method request = ''POST''"
    and "headers_get (req_headers request) ''Authorization'' = Some h"
    and "prefix ''Bearer '' h"
    and "\<not> (truthy (DEV_PRO_TOKEN env) \<and> index (split_space h) 1 = DEV_PRO_TOKEN env)"
    and "net (kinde_request (index (split_space h) 1) env) = Some entRes"
    and "ok entRes"
    and "net_json entRes = Some payload"
  shows "((fetch request env net =
            (fst (relay request env net),
             kinde_request (index (split_space h) 1) env # snd (relay request env net)))
          = ((\<exists>fs. (if opt_prop (opt_prop (Some payload) ''data'') ''entitlements'' \<notin> {None, Some JNull}
                     then opt_prop (opt_prop (Some payload) ''data'') ''entitlements''
                     else opt_prop (opt_prop (Some payload) ''data'') ''features'') = Some (JArray fs) \<and>
                   (\<exists>f\<in>set fs. opt_prop (Some f) ''key'' = Some (JString ''ai_preprocessing'') \<or>
                                opt_prop (Some f) ''feature_key'' = Some (JString ''ai_preprocessing''))) \<or>
             (\<exists>ps. opt_prop (opt_prop (Some payload) ''data'') ''plans'' = Some (JArray ps) \<and>
                   (\<exists>p\<in>set ps. opt_prop (Some p) ''key'' = Some (JString ''ai_preprocessing''))))) \<and>
         (opt_prop (opt_prop (Some payload) ''data'') ''entitlements'' \<in> {None, Some JNull} \<and>
          opt_prop (opt_prop (Some payload) ''data'') ''features'' = Some (JArray fs) \<and>
          f \<in> set fs \<and>
          (opt_prop (Some f) ''key'' = Some (JString ''ai_preprocessing'') \<or>
           opt_prop (Some f) ''feature_key'' = Some (JString ''ai_preprocessing''))
          \<longrightarrow> fetch request env net =
                (fst (relay request env net),
                 kinde_request (index (split_space h) 1) env # snd (relay request env net)))"
proof -
  have f: "(fetch request env net =
             (fst (relay request env net),
              kinde_request (index (split_space h) 1) env # snd (relay request env net)))
           = hasEntitlement (Some payload) REQUIRED_FEATURE"
    using assms(6,7)
    by (simp add: fetch_validated [of request h env net entRes, OF assms(1-5)] snd_relay)
  have g: "hasEntitlement (Some payload) REQUIRED_FEATURE
           = ((\<exists>fs. (if opt_prop (opt_prop (Some payload) ''data'') ''entitlements'' \<notin> {None, Some JNull}
                     then opt_prop (opt_prop (Some payload) ''data'') ''entitlements''
                     else opt_prop (opt_prop (Some payload) ''data'') ''features'') = Some (JArray fs) \<and>
                   (\<exists>f\<in>set fs. opt_prop (Some f) ''key'' = Some (JString ''ai_preprocessing'') \<or>
                                opt_prop (Some f) ''feature_key'' = Some (JString ''ai_preprocessing''))) \<or>
             (\<exists>ps. opt_prop (opt_prop (Some payload) ''data'') ''plans'' = Some (JArray ps) \<and>
                   (\<exists>p\<in>set ps. opt_prop (Some p) ''key'' = Some (JString ''ai_preprocessing''))))"
    unfolding REQUIRED_FEATURE_def by (rule hasEntitlement_iff)
  show ?thesis
    unfolding f g by auto
qed

theorem entitlement_search_order_witness:
  "fetch \<lparr>req_method = ''POST'', req_headers = [(''Authorization'', ''Bearer user-token'')], req_text = ''{}''\<rparr>
         \<lparr>KINDE_DOMAIN = ''biz.kinde.com'', OPENAI_API_KEY = ''sk-secret'',
          ALLOWED_ORIGIN = None, DEV_PRO_TOKEN = None\<rparr>
         (\<lambda>c. Some \<lparr>net_status = 200, net_headers = [], net_body = ''ok'',
                      net_json = Some (JObject [(''data'', JObject
                        [(''features'', JArray [JObject [(''key'', JString ''ai_preprocessing'')]])])]
                        :: int json)\<rparr>)
     = (fst (relay \<lparr>req_method = ''POST'', req_headers = [(''Authorization'', ''Bearer user-token'')], req_text = ''{}''\<rparr>
              \<lparr>KINDE_DOMAIN = ''biz.kinde.com'', OPENAI_API_KEY = ''sk-secret'',
               ALLOWED_ORIGIN = None, DEV_PRO_TOKEN = None\<rparr>
              (\<lambda>c. Some \<lparr>net_status = 200, net_headers = [], net_body = ''ok'',
                      net_json = Some (JObject [(''data'', JObject
                        [(''features'', JArray [JObject [(''key'', JString ''ai_preprocessing'')]])])]
                        :: int json)\<rparr>)),
        [kinde_request (Some ''user-token'')
           \<lparr>KINDE_DOMAIN = ''biz.kinde.com'', OPENAI_API_KEY = ''sk-secret'',
            ALLOWED_ORIGIN = None, DEV_PRO_TOKEN = None\<rparr>,
         openai_request
           \<lparr>KINDE_DOMAIN = ''biz.kinde.com'', OPENAI_API_KEY = ''sk-secret'',
            ALLOWED_ORIGIN = None, DEV_PRO_TOKEN = None\<rparr> ''{}''])"
proof -
  note [simp] = headers_get_def name_eq_def lowercase_def lower_def ok_def index_def snd_relay
  show ?thesis
    using entitlement_search_order
      [of "\<lparr>req_method = ''POST'', req_headers = [(''Authorization'', ''Bearer user-token'')], req_text = ''{}''\<rparr>"
          "''Bearer user-token''"
          "\<lparr>KINDE_DOMAIN = ''biz.kinde.com'', OPENAI_API_KEY = ''sk-secret'',
               ALLOWED_ORIGIN = None, DEV_PRO_TOKEN = None\<rparr>"
          "\<lambda>c. Some \<lparr>net_status = 200, net_headers = [], net_body = ''ok'',
                      net_json = Some (JObject [(''data'', JObject
                        [(''features'', JArray [JObject [(''key'', JString ''ai_preprocessing'')]])])]
                        :: int json)\<rparr>"
          "\<lparr>net_status = 200, net_headers = [], net_body = ''ok'',
                      net_json = Some (JObject [(''data'', JObject
                        [(''features'', JArray [JObject [(''key'', JString ''ai_preprocessing'')]])])]
                        :: int json)\<rparr>"
          "JObject [(''data'', JObject
                        [(''features'', JArray [JObject [(''key'', JString ''ai_preprocessing'')]])])]"
          "[JObject [(''key'', JString ''ai_preprocessing'')]]"
          "JObject [(''key'', JString ''ai_preprocessing'')]", simplified]
    by simp
qed

text \<open>
  The claim C1 as first stated fails: with \<open>data.entitlements\<close> present and empty, a
  matching object in \<open>data.features\<close> is not consulted and the gateway answers 403.
\<close>

theorem entitlements_shadow_features_counterexample:
  "fetch \<lparr>req_method = ''POST'', req_headers = [(''Authorization'', ''Bearer user-token'')], req_text = ''{}''\<rparr>
         \<lparr>KINDE_DOMAIN = ''biz.kinde.com'', OPENAI_API_KEY = ''sk-secret'',
          ALLOWED_ORIGIN = None, DEV_PRO_TOKEN = None\<rparr>
         (\<lambda>c. Some \<lparr>net_status = 200, net_headers = [], net_body = ''ok'',
                      net_json = Some (JObject [(''data'', JObject
                        [(''entitlements'', JArray []),
                         (''features'', JArray [JObject [(''key'', JString ''ai_preprocessing'')]])])]
                        :: int json)\<rparr>)
     = (Inr \<lparr>status = 403,
             headers = [(''Access-Control-Allow-Origin'', ''*''),
                        (''Access-Control-Allow-Methods'', ''POST, OPTIONS''),
                        (''Access-Control-Allow-Headers'', ''Authorization, Content-Type'')],
             body = JsonText (JObject
               [(''success'', JBool False),
                (''message'', JString (''Error: Permission '' @ [CHR 0x27] @ ''ai_preprocessing''
                                        @ [CHR 0x27] @ '' not found.''))])\<rparr>,
        [kinde_request (Some ''user-token'')
           \<lparr>KINDE_DOMAIN = ''biz.kinde.com'', OPENAI_API_KEY = ''sk-secret'',
            ALLOWED_ORIGIN = None, DEV_PRO_TOKEN = None\<rparr>])"
  by (simp add: fetch_def validateKindeAccess_def hasEntitlement_def Let_def headers_get_def
      name_eq_def lowercase_def lower_def index_def ok_def strict_eq_def cors_def or_else_def or_default_def
      REQUIRED_FEATURE_def)

section \<open>Independence of the server-side secret\<close>

lemma cors_key: "cors origin (env\<lparr>OPENAI_API_KEY := k\<rparr>) = cors origin env"
  by (simp add: cors_def)

lemma handleOptions_key: "handleOptions request (env\<lparr>OPENAI_API_KEY := k\<rparr>) = handleOptions request env"
  by (simp add: handleOptions_def cors_key)

lemma kinde_request_key: "kinde_request t (env\<lparr>OPENAI_API_KEY := k\<rparr>) = kinde_request t env"
  by (simp add: kinde_request_def entitlementsUrl_def)

lemma validateKindeAccess_key:
  "validateKindeAccess t (env\<lparr>OPENAI_API_KEY := k\<rparr>) net = validateKindeAccess t env net"
  by (simp add: validateKindeAccess_def kinde_request_key cors_key Let_def split: option.splits)

lemma fetch_shape:
  "(\<exists>pre. fetch request env net = (fst (relay request env net), pre @ snd (relay request env net)) \<and>
          (\<forall>c\<in>set pre. url c \<noteq> ''https://api.openai.com/v1/chat/completions''))
   \<or> (\<forall>c\<in>set (snd (fetch request env net)). url c \<noteq> ''https://api.openai.com/v1/chat/completions'')"
proof (cases "req_method request = ''POST''")
  case False
  then show ?thesis by (simp add: fetch_def)
next
  case post: True
  show ?thesis
  proof (cases "headers_get (req_headers request) ''Authorization''")
    case None
    with post show ?thesis by (simp add: fetch_def)
  next
    case (Some h)
    show ?thesis
    proof (cases "prefix ''Bearer '' h")
      case False
      with post Some show ?thesis by (simp add: fetch_def)
    next
      case bearer: True
      show ?thesis
      proof (cases "truthy (DEV_PRO_TOKEN env) \<and> index (split_space h) 1 = DEV_PRO_TOKEN env")
        case True
        with post Some bearer have "fetch request env net = relay request env net"
          by (simp add: fetch_def Let_def)
        then have "fetch request env net = (fst (relay request env net), [] @ snd (relay request env net))"
          by simp
        then show ?thesis by (metis empty_iff list.set(1))
      next
        case nb: False
        show ?thesis
        proof (cases "net (kinde_request (index (split_space h) 1) env)")
          case None
          with post Some bearer nb show ?thesis
            by (auto simp add: fetch_def Let_def validateKindeAccess_def url_kinde_request
                entitlementsUrl_not_completions)
        next
          case (Some entRes)
          note fv = fetch_validated [of request h env net entRes, OF post \<open>headers_get (req_headers request) ''Authorization'' = Some h\<close> bearer nb Some]
          have k: "url (kinde_request (index (split_space h) 1) env) \<noteq> ''https://api.openai.com/v1/chat/completions''"
            by (simp add: url_kinde_request entitlementsUrl_not_completions)
          show ?thesis
          proof (cases "ok entRes \<and> hasEntitlement (Some (case net_json entRes of None \<Rightarrow> JObject [] | Some j \<Rightarrow> j)) REQUIRED_FEATURE")
            case True
            then have "fetch request env net = (fst (relay request env net),
                [kinde_request (index (split_space h) 1) env] @ snd (relay request env net))"
              by (simp add: fv)
            with k show ?thesis by (metis empty_iff empty_set set_ConsD)
          next
            case False
            then have "snd (fetch request env net) = [kinde_request (index (split_space h) 1) env]"
              by (auto simp add: fv)
            with k show ?thesis by simp
          qed
        qed
      qed
    qed
  qed
qed

lemma fetch_key:
  assumes "\<forall>c\<in>set (snd (fetch request env net)). url c \<noteq> ''https://api.openai.com/v1/chat/completions''"
  shows "fetch request (env\<lparr>OPENAI_API_KEY := k\<rparr>) net = fetch request env net"
proof (cases "req_method request = ''POST''")
  case False
  then show ?thesis by (simp add: fetch_def cors_key handleOptions_key)
next
  case post: True
  show ?thesis
  proof (cases "headers_get (req_headers request) ''Authorization''")
    case None
    with post show ?thesis by (simp add: fetch_def cors_key)
  next
    case (Some h)
    show ?thesis
    proof (cases "prefix ''Bearer '' h")
      case False
      with post Some show ?thesis by (simp add: fetch_def cors_key)
    next
      case bearer: True
      show ?thesis
      proof (cases "truthy (DEV_PRO_TOKEN env) \<and> index (split_space h) 1 = DEV_PRO_TOKEN env")
        case True
        with post Some bearer have "fetch request env net = relay request env net"
          by (simp add: fetch_def Let_def)
        with assms show ?thesis
          by (simp add: snd_relay url_openai_request)
      next
        case nb: False
        then have nb': "\<not> (truthy (DEV_PRO_TOKEN (env\<lparr>OPENAI_API_KEY := k\<rparr>)) \<and>
            index (split_space h) 1 = DEV_PRO_TOKEN (env\<lparr>OPENAI_API_KEY := k\<rparr>))"
          by simp
        show ?thesis
        proof (cases "net (kinde_request (index (split_space h) 1) env)")
          case None
          then have "validateKindeAccess (index (split_space h) 1) env net
              = (Inl NetworkFailure, [kinde_request (index (split_space h) 1) env])"
            by (simp add: validateKindeAccess_def)
          with post Some bearer nb show ?thesis
            by (auto simp add: fetch_def Let_def validateKindeAccess_key)
        next
          case (Some entRes)
          note a = \<open>headers_get (req_headers request) ''Authorization'' = Some h\<close>
          from Some have Some': "net (kinde_request (index (split_space h) 1) (env\<lparr>OPENAI_API_KEY := k\<rparr>)) = Some entRes"
            by (simp add: kinde_request_key)
          note fv = fetch_validated [of request h env net entRes, OF post a bearer nb Some]
          note fv' = fetch_validated [of request h "env\<lparr>OPENAI_API_KEY := k\<rparr>" net entRes, OF post a bearer nb' Some']
          show ?thesis
          proof (cases "ok entRes \<and> hasEntitlement (Some (case net_json entRes of None \<Rightarrow> JObject [] | Some j \<Rightarrow> j)) REQUIRED_FEATURE")
            case True
            then have "fetch request env net = (fst (relay request env net),
                kinde_request (index (split_space h) 1) env # snd (relay request env net))"
              by (simp add: fv)
            with assms show ?thesis
              by (simp add: snd_relay url_openai_request)
          next
            case False
            then show ?thesis
              by (auto simp add: fv fv' cors_key kinde_request_key)
          qed
        qed
      qed
    qed
  qed
qed

text \<open>
  C3. Take any request, any network and two environments that differ in
  \<open>OPENAI_API_KEY\<close> only. The run reaches the completion API under one key exactly
  when it does under the other; and when it does not (the response is one the gateway
  originates: preflight, 405, 401, 403 or provider error), the two runs give the same
  response (status, headers and body) or the same failure, after the same outbound
  calls. So the secret has no influence on a gateway-originated response.
\<close>

theorem secret_never_influences_gateway_responses:
  "((\<exists>c\<in>set (snd (fetch request (env\<lparr>OPENAI_API_KEY := key_a\<rparr>) net)).
        url c = ''https://api.openai.com/v1/chat/completions'') =
    (\<exists>c\<in>set (snd (fetch request (env\<lparr>OPENAI_API_KEY := key_b\<rparr>) net)).
        url c = ''https://api.openai.com/v1/chat/completions'')) \<and>
   ((\<forall>c\<in>set (snd (fetch request (env\<lparr>OPENAI_API_KEY := key_a\<rparr>) net)).
        url c \<noteq> ''https://api.openai.com/v1/chat/completions'') \<longrightarrow>
    fetch request (env\<lparr>OPENAI_API_KEY := key_a\<rparr>) net = fetch request (env\<lparr>OPENAI_API_KEY := key_b\<rparr>) net)"
proof -
  have one: "fetch request (env\<lparr>OPENAI_API_KEY := b\<rparr>) net = fetch request (env\<lparr>OPENAI_API_KEY := a\<rparr>) net"
    if "\<forall>c\<in>set (snd (fetch request (env\<lparr>OPENAI_API_KEY := a\<rparr>) net)).
          url c \<noteq> ''https://api.openai.com/v1/chat/completions''" for a b
    using fetch_key [OF that, of b] by simp
  show ?thesis
    by (metis one)
qed

theorem secret_never_influences_gateway_responses_witness:
  "fetch \<lparr>req_method = ''POST'', req_headers = [(''Authorization'', ''Bearer user-token'')], req_text = ''{}''\<rparr>
         \<lparr>KINDE_DOMAIN = ''biz.kinde.com'', OPENAI_API_KEY = ''sk-one'',
          ALLOWED_ORIGIN = None, DEV_PRO_TOKEN = None\<rparr>
         (\<lambda>c. Some \<lparr>net_status = 200, net_headers = [], net_body = ''{}'',
                      net_json = Some (JObject [] :: int json)\<rparr>)
   = fetch \<lparr>req_method = ''POST'', req_headers = [(''Authorization'', ''Bearer user-token'')], req_text = ''{}''\<rparr>
         \<lparr>KINDE_DOMAIN = ''biz.kinde.com'', OPENAI_API_KEY = ''sk-two'',
          ALLOWED_ORIGIN = None, DEV_PRO_TOKEN = None\<rparr>
         (\<lambda>c. Some \<lparr>net_status = 200, net_headers = [], net_body = ''{}'',
                      net_json = Some (JObject [] :: int json)\<rparr>)"
proof -
  have h: "\<forall>c\<in>set (snd (fetch \<lparr>req_method = ''POST'', req_headers = [(''Authorization'', ''Bearer user-token'')], req_text = ''{}''\<rparr>
         (\<lparr>KINDE_DOMAIN = ''biz.kinde.com'', OPENAI_API_KEY = ''sk'',
          ALLOWED_ORIGIN = None, DEV_PRO_TOKEN = None\<rparr>\<lparr>OPENAI_API_KEY := ''sk-one''\<rparr>)
         (\<lambda>c. Some \<lparr>net_status = 200, net_headers = [], net_body = ''{}'',
                      net_json = Some (JObject [] :: int json)\<rparr>))).
            url c \<noteq> ''https://api.openai.com/v1/chat/completions''"
    by (simp add: fetch_def validateKindeAccess_def hasEntitlement_def Let_def headers_get_def
        name_eq_def lowercase_def lower_def index_def ok_def kinde_request_def entitlementsUrl_def)
  from secret_never_influences_gateway_responses
      [where request = "\<lparr>req_method = ''POST'', req_headers = [(''Authorization'', ''Bearer user-token'')], req_text = ''{}''\<rparr>"
         and env = "\<lparr>KINDE_DOMAIN = ''biz.kinde.com'', OPENAI_API_KEY = ''sk'',
            ALLOWED_ORIGIN = None, DEV_PRO_TOKEN = None\<rparr>"
         and key_a = "''sk-one''"
         and net = "\<lambda>c. Some \<lparr>net_status = 200, net_headers = [], net_body = ''{}'',
                      net_json = Some (JObject [] :: int json)\<rparr>"
         and key_b = "''sk-two''"] h
  have "fetch \<lparr>req_method = ''POST'', req_headers = [(''Authorization'', ''Bearer user-token'')], req_text = ''{}''\<rparr>
         (\<lparr>KINDE_DOMAIN = ''biz.kinde.com'', OPENAI_API_KEY = ''sk'',
          ALLOWED_ORIGIN = None, DEV_PRO_TOKEN = None\<rparr>\<lparr>OPENAI_API_KEY := ''sk-one''\<rparr>)
         (\<lambda>c. Some \<lparr>net_status = 200, net_headers = [], net_body = ''{}'',
                      net_json = Some (JObject [] :: int json)\<rparr>)
   = fetch \<lparr>req_method = ''POST'', req_headers = [(''Authorization'', ''Bearer user-token'')], req_text = ''{}''\<rparr>
         (\<lparr>KINDE_DOMAIN = ''biz.kinde.com'', OPENAI_API_KEY = ''sk'',
          ALLOWED_ORIGIN = None, DEV_PRO_TOKEN = None\<rparr>\<lparr>OPENAI_API_KEY := ''sk-two''\<rparr>)
         (\<lambda>c. Some \<lparr>net_status = 200, net_headers = [], net_body = ''{}'',
                      net_json = Some (JObject [] :: int json)\<rparr>)"
    by blast
  then show ?thesis by simp
qed

section \<open>The upstream relay\<close>



lemma cors_origin:
  "headers_get (cors origin env) ''Access-Control-Allow-Origin''
     = Some (if truthy (ALLOWED_ORIGIN env) then the (ALLOWED_ORIGIN env)
             else if truthy origin then the origin else ''*'')"
  by (cases "ALLOWED_ORIGIN env"; cases origin)
     (simp_all add: cors_def or_else_def or_default_def headers_get_def name_eq_def lowercase_names)

lemma relay_header_lookup:
  assumes "net (openai_request env (req_text request)) = Some upstream"
  shows "\<exists>r. fst (relay request env net) = Inr r \<and> status r = net_status upstream \<and>
             body r = UpstreamBody (net_body upstream) \<and>
             (\<forall>m. headers_get (headers r) m =
                (if name_eq ''Access-Control-Allow-Headers'' m then Some ''Authorization, Content-Type''
                 else if name_eq ''Access-Control-Allow-Methods'' m then Some ''POST, OPTIONS''
                 else if name_eq ''Access-Control-Allow-Origin'' m
                   then headers_get (cors (headers_get (req_headers request) ''Origin'') env)
                          ''Access-Control-Allow-Origin''
                 else if name_eq ''Content-Encoding'' m then None
                 else if name_eq ''Cache-Control'' m then Some ''no-store''
                 else if name_eq ''Content-Type'' m then Some ''text/event-stream; charset=utf-8''
                 else headers_get (net_headers upstream) m))"
proof -
  have c: "headers_get (cors (headers_get (req_headers request) ''Origin'') env)
             ''Access-Control-Allow-Origin''
           = Some (or_default (or_else (ALLOWED_ORIGIN env)
                (headers_get (req_headers request) ''Origin'')) ''*'')"
    by (simp add: cors_def headers_get_def name_eq_def lowercase_names)
  show ?thesis
    using assms unfolding c
    by (simp add: relay_def Let_def cors_def headers_get_set headers_get_delete)
qed

lemma fetch_relayed:
  assumes "c \<in> set (snd (fetch request env net))"
    and "url c = ''https://api.openai.com/v1/chat/completions''"
  shows "fst (fetch request env net) = fst (relay request env net)"
  using fetch_shape [of request env net] assms by auto

text \<open>
  C7. When the run reaches the completion API and the upstream call resolves, the
  response of the gateway carries the upstream status and body; it has no
  \<open>Content-Encoding\<close> header under any spelling of the name, its \<open>Content-Type\<close> is
  \<open>text/event-stream; charset=utf-8\<close> and its \<open>Cache-Control\<close> is \<open>no-store\<close>,
  whatever the upstream sent; and every header other than these three and the three CORS
  headers reads as it does in the upstream response.
\<close>

theorem relay_response_headers:
  assumes "c \<in> set (snd (fetch request env net))"
    and "url c = ''https://api.openai.com/v1/chat/completions''"
    and "net (openai_request env (req_text request)) = Some upstream"
  shows "\<exists>r. fst (fetch request env net) = Inr r \<and>
             status r = net_status upstream \<and>
             body r = UpstreamBody (net_body upstream) \<and>
             (\<forall>n. name_eq n ''Content-Encoding'' \<longrightarrow> headers_get (headers r) n = None) \<and>
             headers_get (headers r) ''Content-Type'' = Some ''text/event-stream; charset=utf-8'' \<and>
             headers_get (headers r) ''Cache-Control'' = Some ''no-store'' \<and>
             (\<forall>n. \<not> name_eq n ''Content-Type'' \<and> \<not> name_eq n ''Cache-Control'' \<and>
                  \<not> name_eq n ''Content-Encoding'' \<and>
                  \<not> name_eq n ''Access-Control-Allow-Origin'' \<and>
                  \<not> name_eq n ''Access-Control-Allow-Methods'' \<and>
                  \<not> name_eq n ''Access-Control-Allow-Headers''
                  \<longrightarrow> headers_get (headers r) n = headers_get (net_headers upstream) n)"
proof -
  from relay_header_lookup [of net env request upstream, OF assms(3)] obtain r where
    r: "fst (relay request env net) = Inr r" "status r = net_status upstream"
       "body r = UpstreamBody (net_body upstream)"
    and look: "\<And>m. headers_get (headers r) m =
                (if name_eq ''Access-Control-Allow-Headers'' m then Some ''Authorization, Content-Type''
                 else if name_eq ''Access-Control-Allow-Methods'' m then Some ''POST, OPTIONS''
                 else if name_eq ''Access-Control-Allow-Origin'' m
                   then headers_get (cors (headers_get (req_headers request) ''Origin'') env)
                          ''Access-Control-Allow-Origin''
                 else if name_eq ''Content-Encoding'' m then None
                 else if name_eq ''Cache-Control'' m then Some ''no-store''
                 else if name_eq ''Content-Type'' m then Some ''text/event-stream; charset=utf-8''
                 else headers_get (net_headers upstream) m)"
    by blast
  have f: "fst (fetch request env net) = Inr r"
    using fetch_relayed [OF assms(1,2)] r(1) by simp
  have ce: "headers_get (headers r) n = None" if "name_eq n ''Content-Encoding''" for n
    using that unfolding look by (simp add: name_eq_def lowercase_names)
  have ct: "headers_get (headers r) ''Content-Type'' = Some ''text/event-stream; charset=utf-8''"
    unfolding look by (simp add: name_eq_def lowercase_names)
  have cc: "headers_get (headers r) ''Cache-Control'' = Some ''no-store''"
    unfolding look by (simp add: name_eq_def lowercase_names)
  have other: "headers_get (headers r) n = headers_get (net_headers upstream) n"
    if "\<not> name_eq n ''Content-Type'' \<and> \<not> name_eq n ''Cache-Control'' \<and>
        \<not> name_eq n ''Content-Encoding'' \<and>
        \<not> name_eq n ''Access-Control-Allow-Origin'' \<and>
        \<not> name_eq n ''Access-Control-Allow-Methods'' \<and>
        \<not> name_eq n ''Access-Control-Allow-Headers''" for n
    using that unfolding look by (simp add: name_eq_sym [of n])
  from f r(2,3) ce ct cc other show ?thesis by blast
qed

theorem relay_response_headers_witness:
  "\<exists>r. fst (fetch \<lparr>req_method = ''POST'', req_headers = [(''Authorization'', ''Bearer dev-token'')],
                    req_text = ''{}''\<rparr>
                   \<lparr>KINDE_DOMAIN = ''biz.kinde.com'', OPENAI_API_KEY = ''sk-secret'',
                    ALLOWED_ORIGIN = None, DEV_PRO_TOKEN = Some ''dev-token''\<rparr>
                   (\<lambda>c. Some \<lparr>net_status = 200,
                                net_headers = [(''content-encoding'', ''gzip''),
                                               (''Content-Type'', ''application/json''),
                                               (''x-request-id'', ''42'')],
                                net_body = ''data: hi'',
                                net_json = (None :: int json option)\<rparr>)) = Inr r \<and>
        status r = 200 \<and>
        body r = UpstreamBody ''data: hi'' \<and>
        headers_get (headers r) ''content-encoding'' = None \<and>
        headers_get (headers r) ''Content-Type'' = Some ''text/event-stream; charset=utf-8'' \<and>
        headers_get (headers r) ''Cache-Control'' = Some ''no-store'' \<and>
        headers_get (headers r) ''x-request-id'' = Some ''42''"
proof -
  have calls: "openai_request \<lparr>KINDE_DOMAIN = ''biz.kinde.com'', OPENAI_API_KEY = ''sk-secret'',
                    ALLOWED_ORIGIN = None, DEV_PRO_TOKEN = Some ''dev-token''\<rparr> ''{}''
      \<in> set (snd (fetch \<lparr>req_method = ''POST'', req_headers = [(''Authorization'', ''Bearer dev-token'')],
                    req_text = ''{}''\<rparr>
                   \<lparr>KINDE_DOMAIN = ''biz.kinde.com'', OPENAI_API_KEY = ''sk-secret'',
                    ALLOWED_ORIGIN = None, DEV_PRO_TOKEN = Some ''dev-token''\<rparr>
                   (\<lambda>c. Some \<lparr>net_status = 200,
                                net_headers = [(''content-encoding'', ''gzip''),
                                               (''Content-Type'', ''application/json''),
                                               (''x-request-id'', ''42'')],
                                net_body = ''data: hi'',
                                net_json = (None :: int json option)\<rparr>)))"
    by (simp add: fetch_def Let_def headers_get_def name_eq_def lowercase_names index_def snd_relay)
  note t = relay_response_headers
    [where c = "openai_request \<lparr>KINDE_DOMAIN = ''biz.kinde.com'', OPENAI_API_KEY = ''sk-secret'',
                    ALLOWED_ORIGIN = None, DEV_PRO_TOKEN = Some ''dev-token''\<rparr> ''{}''"
       and net = "\<lambda>c. Some \<lparr>net_status = 200,
                                net_headers = [(''content-encoding'', ''gzip''),
                                               (''Content-Type'', ''application/json''),
                                               (''x-request-id'', ''42'')],
                                net_body = ''data: hi'',
                                net_json = (None :: int json option)\<rparr>"
       and upstream = "\<lparr>net_status = 200,
                                net_headers = [(''content-encoding'', ''gzip''),
                                               (''Content-Type'', ''application/json''),
                                               (''x-request-id'', ''42'')],
                                net_body = ''data: hi'',
                                net_json = (None :: int json option)\<rparr>",
     OF calls]
  have "name_eq ''content-encoding'' ''Content-Encoding''"
    and "\<not> name_eq ''x-request-id'' ''Content-Type'' \<and> \<not> name_eq ''x-request-id'' ''Cache-Control'' \<and>
         \<not> name_eq ''x-request-id'' ''Content-Encoding'' \<and>
         \<not> name_eq ''x-request-id'' ''Access-Control-Allow-Origin'' \<and>
         \<not> name_eq ''x-request-id'' ''Access-Control-Allow-Methods'' \<and>
         \<not> name_eq ''x-request-id'' ''Access-Control-Allow-Headers''"
    and "headers_get [(''content-encoding'', ''gzip''), (''Content-Type'', ''application/json''),
                      (''x-request-id'', ''42'')] ''x-request-id'' = Some ''42''"
    by (simp_all add: name_eq_def lowercase_names headers_get_def, simp_all add: lowercase_def lower_def)
  with t show ?thesis
    by (fastforce simp add: url_openai_request)
qed

section \<open>Request admission\<close>




section \<open>The allowed origin\<close>

lemma headers_get_Cons_other:
  "\<not> name_eq k n \<Longrightarrow> headers_get ((k, v) # hs) n = headers_get hs n"
  by (simp add: headers_get_def)

lemma handleOptions_allow_origin:
  "headers_get (headers (handleOptions request env :: 'n response)) ''Access-Control-Allow-Origin''
     = headers_get (cors (headers_get (req_headers request) ''Origin'') env)
         ''Access-Control-Allow-Origin''"
proof -
  have "\<not> name_eq ''Allow'' ''Access-Control-Allow-Origin''"
    by (simp add: name_eq_def lowercase_names)
  then show ?thesis
    by (simp add: handleOptions_def Let_def headers_get_Cons_other)
qed

lemma relay_allow_origin:
  assumes "fst (relay request env net) = Inr r"
  shows "headers_get (headers r) ''Access-Control-Allow-Origin''
     = headers_get (cors (headers_get (req_headers request) ''Origin'') env)
         ''Access-Control-Allow-Origin''"
proof (cases "net (openai_request env (req_text request))")
  case None
  with assms show ?thesis by (simp add: relay_def Let_def)
next
  case (Some upstream)
  from relay_header_lookup [of net env request upstream, OF Some] assms
  have "headers_get (headers r) ''Access-Control-Allow-Origin'' =
          (if name_eq ''Access-Control-Allow-Headers'' ''Access-Control-Allow-Origin''
           then Some ''Authorization, Content-Type''
           else if name_eq ''Access-Control-Allow-Methods'' ''Access-Control-Allow-Origin''
           then Some ''POST, OPTIONS''
           else if name_eq ''Access-Control-Allow-Origin'' ''Access-Control-Allow-Origin''
             then headers_get (cors (headers_get (req_headers request) ''Origin'') env)
                    ''Access-Control-Allow-Origin''
           else if name_eq ''Content-Encoding'' ''Access-Control-Allow-Origin'' then None
           else if name_eq ''Cache-Control'' ''Access-Control-Allow-Origin'' then Some ''no-store''
           else if name_eq ''Content-Type'' ''Access-Control-Allow-Origin''
           then Some ''text/event-stream; charset=utf-8''
           else headers_get (net_headers upstream) ''Access-Control-Allow-Origin'')"
    by auto
  then show ?thesis
    by (simp add: name_eq_def lowercase_names)
qed

lemma kinde_request_not_openai:
  "kinde_request t env \<noteq> openai_request env' b"
  "openai_request env' b \<noteq> kinde_request t env"
  by (simp_all add: kinde_request_def openai_request_def)

text \<open>
  C9 (as amended). In every response of the gateway, the
  \<open>Access-Control-Allow-Origin\<close> header is the configured \<open>ALLOWED_ORIGIN\<close> when that
  is set and not empty. Otherwise, in the preflight, 405 and 401 responses and in the relay
  response it is the \<open>Origin\<close> header of the request when that is present and not
  empty, else \<open>*\<close>; in the 403 and provider-error responses, which
  \<open>validateKindeAccess\<close> builds without the request (the only outbound call is then the
  entitlement call), it is \<open>*\<close>.
\<close>

theorem allow_origin_header:
  assumes "fetch request env net = (Inr r, calls)"
  shows "headers_get (headers r) ''Access-Control-Allow-Origin'' =
     Some (if truthy (ALLOWED_ORIGIN env) then the (ALLOWED_ORIGIN env)
           else if (\<exists>t. calls = [kinde_request t env]) then ''*''
           else if truthy (headers_get (req_headers request) ''Origin'')
             then the (headers_get (req_headers request) ''Origin'')
           else ''*'')"
proof (cases "req_method request = ''POST''")
  case False
  with assms show ?thesis
    by (auto simp add: fetch_def handleOptions_allow_origin cors_origin split: if_splits)
next
  case post: True
  show ?thesis
  proof (cases "headers_get (req_headers request) ''Authorization''")
    case None
    with post assms show ?thesis by (auto simp add: fetch_def cors_origin)
  next
    case (Some h)
    show ?thesis
    proof (cases "prefix ''Bearer '' h")
      case False
      with post Some assms show ?thesis by (auto simp add: fetch_def cors_origin)
    next
      case bearer: True
      show ?thesis
      proof (cases "truthy (DEV_PRO_TOKEN env) \<and> index (split_space h) 1 = DEV_PRO_TOKEN env")
        case True
        with post Some bearer have "fetch request env net = relay request env net"
          by (simp add: fetch_def Let_def)
        with assms have r: "fst (relay request env net) = Inr r"
          and c: "calls = [openai_request env (req_text request)]"
          using snd_relay [of request env net] by simp_all
        have "\<not> (\<exists>t. calls = [kinde_request t env])"
          unfolding c by (simp add: kinde_request_not_openai)
        with relay_allow_origin [OF r] show ?thesis
          by (simp add: cors_origin)
      next
        case nb: False
        show ?thesis
        proof (cases "net (kinde_request (index (split_space h) 1) env)")
          case None
          then have "validateKindeAccess (index (split_space h) 1) env net
              = (Inl NetworkFailure, [kinde_request (index (split_space h) 1) env])"
            by (simp add: validateKindeAccess_def)
          with post Some bearer nb assms show ?thesis
            by (auto simp add: fetch_def Let_def)
        next
          case (Some entRes)
          note a = \<open>headers_get (req_headers request) ''Authorization'' = Some h\<close>
          note fv = fetch_validated [of request h env net entRes, OF post a bearer nb Some]
          show ?thesis
          proof (cases "ok entRes \<and> hasEntitlement (Some (case net_json entRes of None \<Rightarrow> JObject [] | Some j \<Rightarrow> j)) REQUIRED_FEATURE")
            case True
            then have "fetch request env net = (fst (relay request env net),
                kinde_request (index (split_space h) 1) env # snd (relay request env net))"
              by (simp add: fv)
            with assms have r: "fst (relay request env net) = Inr r"
              and c: "calls = [kinde_request (index (split_space h) 1) env,
                            openai_request env (req_text request)]"
              by (simp_all add: snd_relay)
            have "\<not> (\<exists>t. calls = [kinde_request t env])"
              unfolding c by simp
            with relay_allow_origin [OF r] show ?thesis
              by (simp add: cors_origin)
          next
            case False
            then have "\<exists>x. fetch request env net
                  = (Inr x, [kinde_request (index (split_space h) 1) env]) \<and>
                headers x = cors None env"
              by (auto simp add: fv)
            with assms have r: "headers r = cors None env"
              and c: "calls = [kinde_request (index (split_space h) 1) env]"
              by auto
            have "\<exists>t. calls = [kinde_request t env]"
              unfolding c by blast
            with r show ?thesis
              by (simp add: cors_origin)
          qed
        qed
      qed
    qed
  qed
qed

theorem allow_origin_header_witness:
  "fetch \<lparr>req_method = ''POST'', req_headers = [(''Origin'', ''https://app.example'')],
          req_text = ''{}''\<rparr>
         \<lparr>KINDE_DOMAIN = ''biz.kinde.com'', OPENAI_API_KEY = ''sk-secret'',
          ALLOWED_ORIGIN = None, DEV_PRO_TOKEN = None\<rparr>
         (Map.empty :: int network)
   = (Inr \<lparr>status = 401,
           headers = cors (Some ''https://app.example'')
                       \<lparr>KINDE_DOMAIN = ''biz.kinde.com'', OPENAI_API_KEY = ''sk-secret'',
                        ALLOWED_ORIGIN = None, DEV_PRO_TOKEN = None\<rparr>,
           body = JsonText (JObject
             [(''message'', JString ''Error: Missing or invalid Authorization header.'')])\<rparr>,
      []) \<and>
   headers_get (cors (Some ''https://app.example'')
                  \<lparr>KINDE_DOMAIN = ''biz.kinde.com'', OPENAI_API_KEY = ''sk-secret'',
                   ALLOWED_ORIGIN = None, DEV_PRO_TOKEN = None\<rparr>)
     ''Access-Control-Allow-Origin'' = Some ''https://app.example''"
proof -
  have f: "fetch \<lparr>req_method = ''POST'', req_headers = [(''Origin'', ''https://app.example'')],
          req_text = ''{}''\<rparr>
         \<lparr>KINDE_DOMAIN = ''biz.kinde.com'', OPENAI_API_KEY = ''sk-secret'',
          ALLOWED_ORIGIN = None, DEV_PRO_TOKEN = None\<rparr>
         (Map.empty :: int network)
   = (Inr \<lparr>status = 401,
           headers = cors (Some ''https://app.example'')
                       \<lparr>KINDE_DOMAIN = ''biz.kinde.com'', OPENAI_API_KEY = ''sk-secret'',
                        ALLOWED_ORIGIN = None, DEV_PRO_TOKEN = None\<rparr>,
           body = JsonText (JObject
             [(''message'', JString ''Error: Missing or invalid Authorization header.'')])\<rparr>,
      [])"
    by (simp add: fetch_def headers_get_def name_eq_def lowercase_names)
  from allow_origin_header
    [where net = "Map.empty :: int network", OF f] f
  show ?thesis
    by (simp add: headers_get_def name_eq_def lowercase_names)
qed

text \<open>
  The claim C9 as first stated fails: with no \<open>ALLOWED_ORIGIN\<close> configured, the 403
  response to a request that carries an \<open>Origin\<close> header has
  \<open>Access-Control-Allow-Origin: *\<close>, not the origin of the request.
\<close>

theorem validation_responses_ignore_origin_counterexample:
  "headers_get (req_headers \<lparr>req_method = ''POST'',
                   req_headers = [(''Origin'', ''https://app.example''),
                                  (''Authorization'', ''Bearer user-token'')],
                   req_text = ''{}''\<rparr>) ''Origin'' = Some ''https://app.example'' \<and>
   fetch \<lparr>req_method = ''POST'',
          req_headers = [(''Origin'', ''https://app.example''),
                         (''Authorization'', ''Bearer user-token'')],
          req_text = ''{}''\<rparr>
         \<lparr>KINDE_DOMAIN = ''biz.kinde.com'', OPENAI_API_KEY = ''sk-secret'',
          ALLOWED_ORIGIN = None, DEV_PRO_TOKEN = None\<rparr>
         (\<lambda>c. Some \<lparr>net_status = 200, net_headers = [], net_body = ''{}'',
                      net_json = Some (JObject [] :: int json)\<rparr>)
   = (Inr \<lparr>status = 403,
           headers = [(''Access-Control-Allow-Origin'', ''*''),
                      (''Access-Control-Allow-Methods'', ''POST, OPTIONS''),
                      (''Access-Control-Allow-Headers'', ''Authorization, Content-Type'')],
           body = JsonText (JObject
             [(''success'', JBool False),
              (''message'', JString (''Error: Permission '' @ [CHR 0x27] @ ''ai_preprocessing''
                                      @ [CHR 0x27] @ '' not found.''))])\<rparr>,
      [kinde_request (Some ''user-token'')
         \<lparr>KINDE_DOMAIN = ''biz.kinde.com'', OPENAI_API_KEY = ''sk-secret'',
          ALLOWED_ORIGIN = None, DEV_PRO_TOKEN = None\<rparr>]) \<and>
   headers_get [(''Access-Control-Allow-Origin'', ''*''),
                (''Access-Control-Allow-Methods'', ''POST, OPTIONS''),
                (''Access-Control-Allow-Headers'', ''Authorization, Content-Type'')]
     ''Access-Control-Allow-Origin'' = Some ''*''"
  by (simp add: fetch_def validateKindeAccess_def hasEntitlement_def Let_def headers_get_def
      name_eq_def lowercase_names index_def ok_def strict_eq_def cors_def or_else_def or_default_def
      REQUIRED_FEATURE_def)

end
